theory Spec2Isabelle
  imports Complex_Main
begin

section \<open>JavaScript values and objects\<close>

text \<open>
  The session controller (the hook \<open>useReplContext\<close>) and the toolbar view (\<open>Header\<close>)
  are glue code: what they compute is which collaborator is called, with which argument
  and in which order, and which markup is rendered. Both only ever look at primitive
  values: they test them for truthiness, compare them with \<open>!==\<close> and copy them.
  Numbers are the safe integers, those of magnitude at most \<open>2^53 - 1\<close> (identifiers,
  time stamps): on these the double-precision numbers of JavaScript are exact, and their
  string form is the plain decimal one. Fractions, larger magnitudes, infinities and
  \<open>NaN\<close> are outside the model.
\<close>

typedef safe_int = "{n :: int. \<bar>n\<bar> \<le> 9007199254740991}"
  by (rule exI[of _ 0]) simp

datatype jsval = JUndefined | JNull | JBool bool | JNum safe_int | JStr string

text \<open>ToBoolean: \<open>undefined\<close>, \<open>null\<close>, \<open>false\<close>, \<open>0\<close> and the empty string are falsy.\<close>

fun truthy :: "jsval \<Rightarrow> bool" where
  "truthy JUndefined = False"
| "truthy JNull = False"
| "truthy (JBool b) = b"
| "truthy (JNum n) = (Rep_safe_int n \<noteq> 0)"
| "truthy (JStr s) = (s \<noteq> [])"

text \<open>The operators \<open>!a\<close>, \<open>a && b\<close> and \<open>a || b\<close>; the last two return one of their operands.\<close>

definition js_not :: "jsval \<Rightarrow> jsval" where
  "js_not a = JBool (\<not> truthy a)"

definition js_and :: "jsval \<Rightarrow> jsval \<Rightarrow> jsval" where
  "js_and a b = (if truthy a then b else a)"

definition js_or :: "jsval \<Rightarrow> jsval \<Rightarrow> jsval" where
  "js_or a b = (if truthy a then a else b)"

text \<open>
  An object is the finite map of its own properties. Reading a property that the object
  does not have gives \<open>undefined\<close>; spreading \<open>{...a, ...b}\<close> is \<open>a ++ b\<close>.
\<close>

type_synonym obj = "string \<rightharpoonup> jsval"

definition getProp :: "obj \<Rightarrow> string \<Rightarrow> jsval" where
  "getProp ob k = (case ob k of None \<Rightarrow> JUndefined | Some v \<Rightarrow> v)"

section \<open>Calls on the collaborators\<close>

text \<open>
  Every effect of the controller is a call on something it imports or is handed: the
  document store, the browser window, the editor instance, the audio and drawing
  packages. A run is described by the list of these calls, oldest first.
\<close>

datatype event =
    PostMessage string
  | SetLatestCode string
  | SetLocationHash string
  | SetDocumentTitle string
  | SetVersionDefaultsFrom string
  | Duplicate obj
  | CreatePatternID
  | Update jsval obj
  | SetViewingPatternData obj
  | SetActivePattern jsval
  | ClearHydra
  | ResetVoicings
  | ResetGlobalEffects
  | ClearCanvas
  | ResetLoadedSounds
  | SetCps rat
  | Prebake
  | UpdateSettings obj
  | ShareCode jsval

section \<open>The state of the hook\<close>

datatype editor = StrudelMirror

record loaded_module =
  packageName :: string

datatype loading = Rejects | Resolves "loaded_module list"

text \<open>
  \<open>replState\<close> is the React state cell created by \<open>useState({})\<close>, \<open>editorRef_current\<close> is
  \<open>editorRef.current\<close> (\<open>useRef()\<close> leaves it undefined until \<open>init\<close> has run),
  \<open>modulesLoading\<close> and \<open>clearCanvas\<close> are the module-level variables, which are only
  assigned where a window exists: \<open>modulesLoading\<close> is then a promise, which rejects or
  resolves with the list of loaded modules, and \<open>clearCanvas\<close> is then a function.
\<close>

record session =
  replState :: obj
  editorRef_current :: "editor option"
  modulesLoading :: "loading option"
  clearCanvas :: bool

subsection \<open>The lifecycle hooks given to the editor\<close>

text \<open>
  \<open>onUpdateState: (state) => { setReplState({ ...state }); }\<close>
\<close>

definition onUpdateState :: "obj \<Rightarrow> session \<Rightarrow> session" where
  "onUpdateState state s = s\<lparr>replState := Map.empty ++ state\<rparr>"

text \<open>
  \<open>onToggle: (playing) => { if (!playing) { clearHydra(); } }\<close>
\<close>

definition onToggle :: "jsval \<Rightarrow> event list" where
  "onToggle playing = (if truthy (js_not playing) then [ClearHydra] else [])"

subsection \<open>The after-evaluate hook\<close>

text \<open>
  What the hook reads from its surroundings in one invocation. The document store
  (\<open>userPattern\<close>, \<open>createPatternID\<close>, the viewing pointer), \<open>code2hash\<close> and \<open>getMetadata\<close>
  are imported from modules outside this slice, so their results are parameters:
  \<open>window_parent\<close> says whether \<open>window.parent\<close> is an object, \<open>getViewingPatternData\<close> is
  the record that the call of that name returns, \<open>createPatternID\<close> the identifier that
  a call of \<open>createPatternID()\<close> returns. \<open>duplicate\<close> and \<open>update\<close> return a record
  \<open>{id, data}\<close>.
\<close>

record pattern =
  pattern_id :: jsval
  pattern_data :: obj

record collaborators =
  window_parent :: bool
  code2hash :: "string \<Rightarrow> string"
  getMetadata :: "string \<Rightarrow> obj"
  getViewingPatternData :: obj
  userPattern_collection :: jsval
  userPattern_isValidID :: "jsval \<Rightarrow> bool"
  userPattern_duplicate :: "obj \<Rightarrow> pattern"
  userPattern_update :: "jsval \<Rightarrow> obj \<Rightarrow> pattern"
  createPatternID :: jsval

text \<open>
  ToString, as a template literal applies it to a primitive value. A safe integer is
  printed in decimal, with a minus sign when it is negative.
\<close>

fun digits :: "nat \<Rightarrow> string" where
  "digits n = (if n < 10 then [char_of (48 + n)] else digits (n div 10) @ [char_of (48 + n mod 10)])"

fun toString :: "jsval \<Rightarrow> string" where
  "toString JUndefined = ''undefined''"
| "toString JNull = ''null''"
| "toString (JBool b) = (if b then ''true'' else ''false'')"
| "toString (JNum n) =
     (if Rep_safe_int n < 0 then ''-'' else []) @ digits (nat \<bar>Rep_safe_int n\<bar>)"
| "toString (JStr s) = s"

text \<open>
  \<^verbatim>\<open>
  const setDocumentTitle = (code) => {
    const meta = getMetadata(code);
    document.title = (meta.title ? `${meta.title} - ` : '') + 'Strudel REPL';
  };
  \<close>
\<close>

definition setDocumentTitle :: "collaborators \<Rightarrow> string \<Rightarrow> event list" where
  "setDocumentTitle c code =
     (let meta = getMetadata c code
      in [SetDocumentTitle
            ((if truthy (getProp meta ''title'') then toString (getProp meta ''title'') @ '' - '' else [])
             @ ''Strudel REPL'')])"

text \<open>
  \<^verbatim>\<open>
  afterEval: (all) => {
    const { code } = all;
    window.parent?.postMessage(code);
    setLatestCode(code);
    window.location.hash = '#' + code2hash(code);
    setDocumentTitle(code);
    const viewingPatternData = getViewingPatternData();
    setVersionDefaultsFrom(code);
    const data = { ...viewingPatternData, code };
    let id = data.id;
    const isExamplePattern = viewingPatternData.collection !== userPattern.collection;
    if (isExamplePattern) {
      const codeHasChanged = code !== viewingPatternData.code;
      if (codeHasChanged) {
        const newPattern = userPattern.duplicate(data);
        id = newPattern.id;
        setViewingPatternData(newPattern.data);
      }
    } else {
      id = userPattern.isValidID(id) ? id : createPatternID();
      setViewingPatternData(userPattern.update(id, data).data);
    }
    setActivePattern(id);
  }
  \<close>
  The result is the list of the calls that write; the two reads (\<open>getViewingPatternData\<close>,
  \<open>isValidID\<close>) leave no entry.
\<close>

definition afterEval :: "collaborators \<Rightarrow> string \<Rightarrow> event list" where
  "afterEval c code =
     (let t1 = (if window_parent c then [PostMessage code] else []);
          t2 = t1 @ [SetLatestCode code];
          t3 = t2 @ [SetLocationHash (''#'' @ code2hash c code)];
          t4 = t3 @ setDocumentTitle c code;
          viewingPatternData = getViewingPatternData c;
          t5 = t4 @ [SetVersionDefaultsFrom code];
          data = viewingPatternData(''code'' \<mapsto> JStr code);
          id0 = getProp data ''id'';
          isExamplePattern = (getProp viewingPatternData ''collection'' \<noteq> userPattern_collection c)
      in if isExamplePattern then
           (let codeHasChanged = (JStr code \<noteq> getProp viewingPatternData ''code'')
            in if codeHasChanged then
                 (let newPattern = userPattern_duplicate c data;
                      id1 = pattern_id newPattern
                  in t5 @ [Duplicate data, SetViewingPatternData (pattern_data newPattern),
                           SetActivePattern id1])
               else t5 @ [SetActivePattern id0])
         else
           (let valid = userPattern_isValidID c id0;
                t6 = t5 @ (if valid then [] else [CreatePatternID]);
                id1 = (if valid then id0 else createPatternID c);
                updated = userPattern_update c id1 data
            in t6 @ [Update id1 data, SetViewingPatternData (pattern_data updated),
                     SetActivePattern id1]))"

text \<open>
  Two views of a list of calls: the calls that create or change a document of the store
  (\<open>duplicate\<close>, \<open>createPatternID\<close>, \<open>update\<close>) or move the viewing pointer, and, with
  \<open>setActivePattern\<close> added, all calls on the document store.
\<close>

fun isForkOrUpdate :: "event \<Rightarrow> bool" where
  "isForkOrUpdate (Duplicate d) = True"
| "isForkOrUpdate CreatePatternID = True"
| "isForkOrUpdate (Update i d) = True"
| "isForkOrUpdate (SetViewingPatternData d) = True"
| "isForkOrUpdate e = False"

fun isDocumentCall :: "event \<Rightarrow> bool" where
  "isDocumentCall (SetActivePattern i) = True"
| "isDocumentCall e = isForkOrUpdate e"

definition documentCalls :: "event list \<Rightarrow> event list" where
  "documentCalls tr = filter isDocumentCall tr"

subsection \<open>Settings propagation\<close>

text \<open>
  The effect that runs whenever the observed settings change:
  \<^verbatim>\<open>
  let editorSettings = {};
  Object.keys(defaultSettings).forEach((key) => {
    if (Object.prototype.hasOwnProperty.call(_settings, key)) {
      editorSettings[key] = _settings[key];
    }
  });
  editorRef.current?.updateSettings(editorSettings);
  \<close>
  \<open>defaultSettings\<close> belongs to the editor package; the effect only uses the list of its
  keys, which is a parameter here. The loop is a fold over that list.
\<close>

definition editorSettings :: "string list \<Rightarrow> obj \<Rightarrow> obj" where
  "editorSettings defaultSettings_keys observed =
     fold (\<lambda>key es. case observed key of None \<Rightarrow> es | Some v \<Rightarrow> es(key \<mapsto> v))
       defaultSettings_keys Map.empty"

definition settingsEffect :: "string list \<Rightarrow> obj \<Rightarrow> session \<Rightarrow> event list" where
  "settingsEffect defaultSettings_keys observed s =
     (case editorRef_current s of
        None \<Rightarrow> []
      | Some ed \<Rightarrow> [UpdateSettings (editorSettings defaultSettings_keys observed)])"

subsection \<open>The imperative actions\<close>

text \<open>
  \<open>const handleShare = async () => shareCode(replState.code);\<close>
\<close>

definition handleShare :: "session \<Rightarrow> event list" where
  "handleShare s = [ShareCode (getProp (replState s) ''code'')]"

text \<open>
  A call through an undefined variable or a property read on \<open>undefined\<close> throws a
  \<open>TypeError\<close>; awaiting a promise that rejects throws its rejection.
\<close>

datatype js_error = TypeError | Rejection

text \<open>
  \<^verbatim>\<open>
  async function getModule(name) {
    if (!modulesLoading) { return; }
    const modules = await modulesLoading;
    return modules.find((m) => m.packageName === name);
  }
  \<close>
\<close>

definition getModule :: "session \<Rightarrow> string \<Rightarrow> js_error + loaded_module option" where
  "getModule s name =
     (case modulesLoading s of
        None \<Rightarrow> Inr None
      | Some Rejects \<Rightarrow> Inl Rejection
      | Some (Resolves modules) \<Rightarrow> Inr (find (\<lambda>m. packageName m = name) modules))"

text \<open>
  \<^verbatim>\<open>
  const resetEditor = async () => {
    (await getModule('@strudel/tonal'))?.resetVoicings();
    resetGlobalEffects();
    clearCanvas();
    clearHydra();
    resetLoadedSounds();
    editorRef.current.repl.setCps(0.5);
    await prebake();
  };
  \<close>
  The result is the list of calls made and the error that ended the run, if one did.
  The imported functions themselves are taken not to throw, and the tonal module, when
  it is found, to provide \<open>resetVoicings\<close>.
\<close>

definition resetEditor :: "session \<Rightarrow> event list \<times> js_error option" where
  "resetEditor s =
     (case getModule s ''@strudel/tonal'' of
        Inl e \<Rightarrow> ([], Some e)
      | Inr m \<Rightarrow>
          (let t1 = (case m of None \<Rightarrow> [] | Some tonal \<Rightarrow> [ResetVoicings]);
               t2 = t1 @ [ResetGlobalEffects]
           in if \<not> clearCanvas s then (t2, Some TypeError)
              else (let t5 = t2 @ [ClearCanvas, ClearHydra, ResetLoadedSounds]
                    in case editorRef_current s of
                         None \<Rightarrow> (t5, Some TypeError)
                       | Some ed \<Rightarrow> (t5 @ [SetCps (1 / 2), Prebake], None))))"

subsection \<open>The first render and the context handed to the views\<close>

text \<open>
  \<open>const [replState, setReplState] = useState({});\<close> and \<open>const editorRef = useRef();\<close>:
  at the first render the mirrored state is the empty object and there is no editor.
  The module-level variables are whatever the module's initialisation left.
\<close>

definition initialSession :: "loading option \<Rightarrow> bool \<Rightarrow> session" where
  "initialSession loaded canvas =
     \<lparr>replState = Map.empty, editorRef_current = None, modulesLoading = loaded, clearCanvas = canvas\<rparr>"

text \<open>
  \<open>const { started, isDirty, error, activeCode, pending } = replState;\<close> and the data
  fields of the returned \<open>context\<close> object. (Its other fields are the actions and the two
  refs.)
\<close>

record repl_context =
  started :: jsval
  pending :: jsval
  isDirty :: jsval
  activeCode :: jsval
  error :: jsval

definition useReplContext :: "session \<Rightarrow> repl_context" where
  "useReplContext s =
     \<lparr>started = getProp (replState s) ''started'',
      pending = getProp (replState s) ''pending'',
      isDirty = getProp (replState s) ''isDirty'',
      activeCode = getProp (replState s) ''activeCode'',
      error = getProp (replState s) ''error''\<rparr>"

section \<open>The toolbar view\<close>

text \<open>
  The markup that \<open>Header\<close> returns. An attribute \<open>className={cx(...)}\<close> keeps the list
  of the arguments given to \<open>cx\<close> (a helper outside this slice); a literal
  \<open>className="..."\<close> keeps the string. A click handler is named by what it does, with the
  variables it closes over. A child written as a JavaScript expression that is not an
  element is kept as the value (\<open>Prim\<close>): React renders a string or number as text and
  \<open>false\<close>, \<open>null\<close> and \<open>undefined\<close> as nothing.
\<close>

datatype handler =
    OpenUnembedded jsval
  | ToggleZen jsval jsval
  | HandleTogglePlay
  | HandleEvaluate

datatype attr =
    Attr_id string
  | ClassName string
  | ClassNameCx "jsval list"
  | Style_fontFamily jsval
  | OnClick handler
  | Title string

datatype vnode =
    Elem string "attr list" "vnode list"
  | Fragment "vnode list"
  | Text string
  | Prim jsval

text \<open>\<open>{cond && (<element/>)}\<close>: the element when the condition is truthy, else the condition's value.\<close>

definition jsx_and :: "jsval \<Rightarrow> vnode \<Rightarrow> vnode" where
  "jsx_and a node = (if truthy a then node else Prim a)"

text \<open>What \<open>useSettings()\<close> returns, as far as the view reads it.\<close>

record view_settings =
  isZen :: jsval
  isButtonRowHidden :: jsval
  isCSSAnimationDisabled :: jsval
  fontFamily :: jsval

text \<open>
  \<open>Header({ context, embedded = false })\<close>. The argument \<open>win\<close> is \<open>None\<close> where there is
  no window (\<open>typeof window === 'undefined'\<close>), and otherwise holds the value of
  \<open>window.location !== window.parent.location\<close>. The logo's text is the single character
  U+AA5C, here its three UTF-8 bytes.
\<close>

definition Header :: "repl_context \<Rightarrow> jsval \<Rightarrow> bool option \<Rightarrow> view_settings \<Rightarrow> vnode" where
  "Header ctx embedded_arg win st =
     (let embedded = (if embedded_arg = JUndefined then JBool False else embedded_arg);
          isEmbedded = (case win of None \<Rightarrow> JBool False | Some framed \<Rightarrow> js_or embedded (JBool framed))
      in Elem ''header''
           [Attr_id ''header'',
            ClassNameCx
              [JStr ''flex-none text-black z-[100] text-lg select-none h-20 md:h-14'',
               js_and (js_and (js_not (isZen st)) (js_not isEmbedded)) (JStr ''bg-lineHighlight''),
               if truthy (isZen st) then JStr ''h-12 w-8 fixed top-0 left-0''
               else JStr ''sticky top-0 w-full py-1 justify-between'',
               if truthy isEmbedded then JStr ''flex'' else JStr ''md:flex''],
            Style_fontFamily (fontFamily st)]
           [Elem ''div'' [ClassName ''px-4 flex space-x-2 md:pt-0 select-none'']
              [Elem ''h1''
                 [OnClick (OpenUnembedded isEmbedded),
                  ClassNameCx
                    [if truthy isEmbedded then JStr ''text-l cursor-pointer'' else JStr ''text-xl'',
                     JStr ''text-foreground font-bold flex space-x-2 items-center'']]
                 [Elem ''div''
                    [ClassNameCx
                       [JStr ''mt-[1px]'',
                        js_and (js_and (started ctx) (js_not (isCSSAnimationDisabled st)))
                          (JStr ''animate-spin''),
                        JStr ''cursor-pointer text-blue-500'',
                        js_and (isZen st) (JStr ''fixed top-2 right-4'')],
                     OnClick (ToggleZen isEmbedded (isZen st))]
                    [Elem ''span'' [ClassName ''block text-foreground rotate-90'']
                       [Text [CHR 0xEA, CHR 0xA9, CHR 0x9C]]],
                  jsx_and (js_not (isZen st))
                    (Elem ''div'' [ClassName ''space-x-2'']
                       [Elem ''span'' [ClassName []] [Text ''birder'']])]],
            jsx_and (js_and (js_not (isZen st)) (js_not (isButtonRowHidden st)))
              (Elem ''div'' [ClassName ''flex max-w-full overflow-auto text-foreground px-1 md:px-2'']
                 [Elem ''button''
                    [OnClick HandleTogglePlay,
                     Title (if truthy (started ctx) then ''stop'' else ''play''),
                     ClassNameCx
                       [if truthy (js_not isEmbedded) then JStr ''p-2'' else JStr ''px-2'',
                        JStr ''hover:opacity-50'',
                        js_and (js_and (js_not (started ctx)) (js_not (isCSSAnimationDisabled st)))
                          (JStr ''animate-pulse'')]]
                    [if truthy (js_not (pending ctx))
                     then Elem ''span'' [ClassNameCx [JStr ''flex items-center space-x-2'']]
                            [if truthy (started ctx)
                             then Elem ''StopCircleIcon'' [ClassName ''w-6 h-6''] []
                             else Elem ''PlayCircleIcon'' [ClassName ''w-6 h-6''] [],
                             jsx_and (js_not isEmbedded)
                               (Elem ''span'' []
                                  [Prim (if truthy (started ctx) then JStr ''stop'' else JStr ''play'')])]
                     else Fragment [Text ''loading...'']],
                  Elem ''button''
                    [OnClick HandleEvaluate,
                     Title ''update'',
                     ClassNameCx
                       [JStr ''flex items-center space-x-1'',
                        if truthy (js_not isEmbedded) then JStr ''p-2'' else JStr ''px-2'',
                        if truthy (js_or (js_not (isDirty ctx)) (js_not (activeCode ctx)))
                        then JStr ''opacity-50'' else JStr ''hover:opacity-50'']]
                    [jsx_and (js_not isEmbedded) (Elem ''span'' [] [Text ''update''])]])])"

subsection \<open>Reading the markup\<close>

text \<open>The elements of a tree, parents first; the text it shows; an element's parts.\<close>

fun elems :: "vnode \<Rightarrow> vnode list" where
  "elems (Elem t as ks) = Elem t as ks # concat (map elems ks)"
| "elems (Fragment ks) = concat (map elems ks)"
| "elems (Text s) = []"
| "elems (Prim v) = []"

fun texts :: "vnode \<Rightarrow> string list" where
  "texts (Elem t as ks) = concat (map texts ks)"
| "texts (Fragment ks) = concat (map texts ks)"
| "texts (Text s) = [s]"
| "texts (Prim (JStr s)) = [s]"
| "texts (Prim (JNum n)) = [toString (JNum n)]"
| "texts (Prim v) = []"

fun tag_of :: "vnode \<Rightarrow> string" where
  "tag_of (Elem t as ks) = t"
| "tag_of n = []"

fun attrs_of :: "vnode \<Rightarrow> attr list" where
  "attrs_of (Elem t as ks) = as"
| "attrs_of n = []"

fun cx_of :: "attr \<Rightarrow> jsval list" where
  "cx_of (ClassNameCx args) = args"
| "cx_of a = []"

fun title_of :: "attr \<Rightarrow> string list" where
  "title_of (Title t) = [t]"
| "title_of a = []"

fun onClick_of :: "attr \<Rightarrow> handler list" where
  "onClick_of (OnClick h) = [h]"
| "onClick_of a = []"

definition hasClass :: "string \<Rightarrow> vnode \<Rightarrow> bool" where
  "hasClass cl n = (JStr cl \<in> set (concat (map cx_of (attrs_of n))))"

definition titles :: "vnode \<Rightarrow> string list" where
  "titles n = concat (map title_of (attrs_of n))"

definition onClicks :: "vnode \<Rightarrow> handler list" where
  "onClicks n = concat (map onClick_of (attrs_of n))"

text \<open>
  The play/stop control is the element whose click toggles play, the update control the
  one whose click evaluates. An element is dimmed when it is given the class
  \<open>opacity-50\<close>, and spins when it is given \<open>animate-spin\<close>.
\<close>

definition playControls :: "vnode \<Rightarrow> vnode list" where
  "playControls tree = filter (\<lambda>n. HandleTogglePlay \<in> set (onClicks n)) (elems tree)"

definition updateControls :: "vnode \<Rightarrow> vnode list" where
  "updateControls tree = filter (\<lambda>n. HandleEvaluate \<in> set (onClicks n)) (elems tree)"

definition dimmed :: "vnode \<Rightarrow> bool" where
  "dimmed n = hasClass ''opacity-50'' n"

definition spinning :: "vnode \<Rightarrow> bool" where
  "spinning n = hasClass ''animate-spin'' n"

text \<open>The logo is the element whose click switches the zen mode.\<close>

fun isToggleZen :: "handler \<Rightarrow> bool" where
  "isToggleZen (ToggleZen e z) = True"
| "isToggleZen h = False"

definition zenControls :: "vnode \<Rightarrow> vnode list" where
  "zenControls tree = filter (\<lambda>n. list_ex isToggleZen (onClicks n)) (elems tree)"

section \<open>Sample inputs\<close>

text \<open>
  Concrete inputs for the runs below. \<open>sampleStore\<close> stands in for the document store:
  it accepts the non-empty strings as identifiers, hands out the identifier \<open>n1\<close> to a
  duplicate and \<open>n2\<close> from \<open>createPatternID()\<close>, and stores a document under the
  identifier it is given, in the user collection. \<open>document\<close> is a pattern document
  \<open>{id, collection, code}\<close>.
\<close>

definition sampleStore :: "obj \<Rightarrow> collaborators" where
  "sampleStore viewing =
     \<lparr>window_parent = True,
      code2hash = (\<lambda>code. code),
      getMetadata = (\<lambda>code. Map.empty),
      getViewingPatternData = viewing,
      userPattern_collection = JStr ''user'',
      userPattern_isValidID = (\<lambda>v. case v of JStr s \<Rightarrow> s \<noteq> [] | _ \<Rightarrow> False),
      userPattern_duplicate = (\<lambda>d. \<lparr>pattern_id = JStr ''n1'',
          pattern_data = d(''id'' \<mapsto> JStr ''n1'', ''collection'' \<mapsto> JStr ''user'')\<rparr>),
      userPattern_update = (\<lambda>i d. \<lparr>pattern_id = i,
          pattern_data = d(''id'' \<mapsto> i, ''collection'' \<mapsto> JStr ''user'')\<rparr>),
      createPatternID = JStr ''n2''\<rparr>"

definition document :: "jsval \<Rightarrow> string \<Rightarrow> string \<Rightarrow> obj" where
  "document i coll code = [''id'' \<mapsto> i, ''collection'' \<mapsto> JStr coll, ''code'' \<mapsto> JStr code]"

text \<open>A session with an editor and the tonal module loaded; the view's settings, plain and in zen mode.\<close>

definition runningSession :: "obj \<Rightarrow> session" where
  "runningSession state =
     \<lparr>replState = state, editorRef_current = Some StrudelMirror,
      modulesLoading = Some (Resolves [\<lparr>packageName = ''@strudel/tonal''\<rparr>]), clearCanvas = True\<rparr>"

definition plainView :: view_settings where
  "plainView = \<lparr>isZen = JBool False, isButtonRowHidden = JBool False,
      isCSSAnimationDisabled = JBool False, fontFamily = JStr ''monospace''\<rparr>"

definition zenView :: view_settings where
  "zenView = \<lparr>isZen = JBool True, isButtonRowHidden = JBool False,
      isCSSAnimationDisabled = JBool False, fontFamily = JStr ''monospace''\<rparr>"

section \<open>Properties\<close>

subsection \<open>Auxiliary facts\<close>

lemma fold_editorSettings:
  "fold (\<lambda>key es. case observed key of None \<Rightarrow> es | Some v \<Rightarrow> es(key \<mapsto> v)) ks acc
     = acc ++ (observed |` set ks)"
proof (induction ks arbitrary: acc)
  case Nil
  show ?case by simp
next
  case (Cons k ks)
  show ?case
    by (auto simp: Cons.IH map_add_def restrict_map_def fun_eq_iff split: option.splits)
qed

lemma falsy_not_class [simp]:
  "\<not> truthy v \<Longrightarrow> (JStr (c # cs) = v) = False"
  "\<not> truthy v \<Longrightarrow> (v = JStr (c # cs)) = False"
  by (cases v; simp)+

lemmas hook_defs = afterEval_def documentCalls_def setDocumentTitle_def Let_def getProp_def

lemmas view_defs = Header_def Let_def jsx_and_def js_and_def js_not_def js_or_def
  playControls_def updateControls_def zenControls_def onClicks_def titles_def dimmed_def
  spinning_def hasClass_def

subsection \<open>The after-evaluate hook\<close>

text \<open>
  C1. The after-evaluate hook runs with code \<open>C\<close> while the viewed document is an example
  (its collection is not the user collection). If \<open>C\<close> differs from the stored code, the
  calls on the document store are exactly: \<open>duplicate\<close> with the viewed document's data
  carrying code \<open>C\<close>, then the viewing pointer is set to the data of the pattern that
  \<open>duplicate\<close> returned, then the id of that pattern is made the active pattern. If \<open>C\<close>
  equals the stored code, the only call is \<open>setActivePattern\<close> with the example's own id:
  nothing is created and the viewing pointer is not moved.
\<close>

theorem afterEval_example_forks_on_changed_code:
  assumes "getProp (getViewingPatternData c) ''collection'' \<noteq> userPattern_collection c"
  shows "getProp ((getViewingPatternData c)(''code'' \<mapsto> JStr code)) ''code'' = JStr code \<and>
     documentCalls (afterEval c code) =
     (if JStr code \<noteq> getProp (getViewingPatternData c) ''code''
      then [Duplicate ((getViewingPatternData c)(''code'' \<mapsto> JStr code)),
            SetViewingPatternData
              (pattern_data (userPattern_duplicate c ((getViewingPatternData c)(''code'' \<mapsto> JStr code)))),
            SetActivePattern
              (pattern_id (userPattern_duplicate c ((getViewingPatternData c)(''code'' \<mapsto> JStr code))))]
      else [SetActivePattern (getProp (getViewingPatternData c) ''id'')])"
  using assms by (simp add: hook_defs)

text \<open>
  The spec's scenario: viewing \<open>{id: "ex1", collection: "examples", code: "a"}\<close>, an
  evaluation of \<open>"b"\<close> forks, an evaluation of \<open>"a"\<close> does not.
\<close>

theorem afterEval_example_forks_on_changed_code_witness:
  "getProp (getViewingPatternData (sampleStore (document (JStr ''ex1'') ''examples'' ''a''))) ''collection''
     \<noteq> userPattern_collection (sampleStore (document (JStr ''ex1'') ''examples'' ''a''))
   \<and> documentCalls (afterEval (sampleStore (document (JStr ''ex1'') ''examples'' ''a'')) ''b'') =
     [Duplicate ((document (JStr ''ex1'') ''examples'' ''a'')(''code'' \<mapsto> JStr ''b'')),
      SetViewingPatternData ((document (JStr ''ex1'') ''examples'' ''a'')
         (''code'' \<mapsto> JStr ''b'', ''id'' \<mapsto> JStr ''n1'', ''collection'' \<mapsto> JStr ''user'')),
      SetActivePattern (JStr ''n1'')]
   \<and> documentCalls (afterEval (sampleStore (document (JStr ''ex1'') ''examples'' ''a'')) ''a'') =
     [SetActivePattern (JStr ''ex1'')]"
  using afterEval_example_forks_on_changed_code
          [of "sampleStore (document (JStr ''ex1'') ''examples'' ''a'')" "''b''"]
        afterEval_example_forks_on_changed_code
          [of "sampleStore (document (JStr ''ex1'') ''examples'' ''a'')" "''a''"]
  by (simp add: sampleStore_def document_def getProp_def)

text \<open>
  C2 (amended). The after-evaluate hook runs with code \<open>C\<close> while the viewed document is in
  the user collection. The store's \<open>update\<close> is called with the viewed document's data
  carrying code \<open>C\<close>, and what it returns becomes the viewed document. When the viewed
  document's id is valid, no id is created: \<open>update\<close> is called under that id, and that id
  is made the active pattern. When it is not valid, \<open>createPatternID()\<close> is called first
  and the fresh id takes its place in both calls.
\<close>

theorem afterEval_user_updates_in_place:
  assumes "getProp (getViewingPatternData c) ''collection'' = userPattern_collection c"
  shows "getProp ((getViewingPatternData c)(''code'' \<mapsto> JStr code)) ''code'' = JStr code \<and>
     documentCalls (afterEval c code) =
     (if userPattern_isValidID c (getProp (getViewingPatternData c) ''id'')
      then [Update (getProp (getViewingPatternData c) ''id'')
              ((getViewingPatternData c)(''code'' \<mapsto> JStr code)),
            SetViewingPatternData
              (pattern_data (userPattern_update c (getProp (getViewingPatternData c) ''id'')
                 ((getViewingPatternData c)(''code'' \<mapsto> JStr code)))),
            SetActivePattern (getProp (getViewingPatternData c) ''id'')]
      else [CreatePatternID,
            Update (createPatternID c) ((getViewingPatternData c)(''code'' \<mapsto> JStr code)),
            SetViewingPatternData
              (pattern_data (userPattern_update c (createPatternID c)
                 ((getViewingPatternData c)(''code'' \<mapsto> JStr code)))),
            SetActivePattern (createPatternID c)])"
  using assms by (simp add: hook_defs)

text \<open>
  The spec's scenario: viewing \<open>{id: "u1", collection: "user", code: "a"}\<close>, an evaluation
  of the unchanged \<open>"a"\<close> updates the document under \<open>u1\<close>, which stays viewed and active.
\<close>

theorem afterEval_user_updates_in_place_witness:
  "getProp (getViewingPatternData (sampleStore (document (JStr ''u1'') ''user'' ''a''))) ''collection''
     = userPattern_collection (sampleStore (document (JStr ''u1'') ''user'' ''a''))
   \<and> documentCalls (afterEval (sampleStore (document (JStr ''u1'') ''user'' ''a'')) ''a'') =
     [Update (JStr ''u1'') (document (JStr ''u1'') ''user'' ''a''),
      SetViewingPatternData (document (JStr ''u1'') ''user'' ''a''),
      SetActivePattern (JStr ''u1'')]"
  using afterEval_user_updates_in_place [of "sampleStore (document (JStr ''u1'') ''user'' ''a'')" "''a''"]
  by (simp add: sampleStore_def document_def getProp_def fun_upd_idem)

text \<open>
  Against C2 as stated: a user document that has no id yet (\<open>data.id\<close> is undefined) is
  viewed and \<open>"b"\<close> is evaluated. A new id, \<open>n2\<close>, is created; the document is stored under
  it and it becomes the active pattern.
\<close>

theorem afterEval_user_without_id_gets_new_id:
  "documentCalls (afterEval (sampleStore (document JUndefined ''user'' ''a'')) ''b'') =
     [CreatePatternID,
      Update (JStr ''n2'') ((document JUndefined ''user'' ''a'')(''code'' \<mapsto> JStr ''b'')),
      SetViewingPatternData ((document JUndefined ''user'' ''a'')
         (''code'' \<mapsto> JStr ''b'', ''id'' \<mapsto> JStr ''n2'', ''collection'' \<mapsto> JStr ''user'')),
      SetActivePattern (JStr ''n2'')]"
  by (simp add: hook_defs sampleStore_def document_def)

text \<open>
  C7. Every run of the after-evaluate hook with code \<open>C\<close> makes exactly these calls, in
  this order: the broadcast of \<open>C\<close> to the parent frame (when there is one);
  \<open>setLatestCode(C)\<close>; the location fragment set to \<open>#\<close> followed by \<open>code2hash(C)\<close>; the
  document title set to \<open>Strudel REPL\<close>, preceded by the title in the metadata of \<open>C\<close> and
  a dash when that title is truthy; \<open>setVersionDefaultsFrom(C)\<close>; then the fork of the
  viewed document (an example whose code differs from \<open>C\<close>: \<open>duplicate\<close>, viewing pointer),
  nothing (an example with code \<open>C\<close>) or its update (a user document: \<open>createPatternID\<close>
  when its id is not valid, \<open>update\<close>, viewing pointer); and last \<open>setActivePattern\<close> with
  the id of the forked pattern, of the example, or of the updated document. The call of
  \<open>setActivePattern\<close> is the last call of the run and the only one of its kind.
\<close>

theorem afterEval_order_of_effects:
  "afterEval c code =
      (if window_parent c then [PostMessage code] else [])
      @ [SetLatestCode code,
         SetLocationHash (''#'' @ code2hash c code),
         SetDocumentTitle
           ((if truthy (getProp (getMetadata c code) ''title'')
             then toString (getProp (getMetadata c code) ''title'') @ '' - '' else [])
            @ ''Strudel REPL''),
         SetVersionDefaultsFrom code]
      @ (if getProp (getViewingPatternData c) ''collection'' \<noteq> userPattern_collection c
         then (if JStr code \<noteq> getProp (getViewingPatternData c) ''code''
               then [Duplicate ((getViewingPatternData c)(''code'' \<mapsto> JStr code)),
                     SetViewingPatternData
                       (pattern_data (userPattern_duplicate c
                          ((getViewingPatternData c)(''code'' \<mapsto> JStr code)))),
                     SetActivePattern
                       (pattern_id (userPattern_duplicate c
                          ((getViewingPatternData c)(''code'' \<mapsto> JStr code))))]
               else [SetActivePattern (getProp (getViewingPatternData c) ''id'')])
         else (if userPattern_isValidID c (getProp (getViewingPatternData c) ''id'')
               then [Update (getProp (getViewingPatternData c) ''id'')
                       ((getViewingPatternData c)(''code'' \<mapsto> JStr code)),
                     SetViewingPatternData
                       (pattern_data (userPattern_update c (getProp (getViewingPatternData c) ''id'')
                          ((getViewingPatternData c)(''code'' \<mapsto> JStr code)))),
                     SetActivePattern (getProp (getViewingPatternData c) ''id'')]
               else [CreatePatternID,
                     Update (createPatternID c) ((getViewingPatternData c)(''code'' \<mapsto> JStr code)),
                     SetViewingPatternData
                       (pattern_data (userPattern_update c (createPatternID c)
                          ((getViewingPatternData c)(''code'' \<mapsto> JStr code)))),
                     SetActivePattern (createPatternID c)]))
   \<and> filter (\<lambda>e. isDocumentCall e \<and> \<not> isForkOrUpdate e) (afterEval c code)
       = [last (afterEval c code)]"
proof
  show trace: "afterEval c code =
      (if window_parent c then [PostMessage code] else [])
      @ [SetLatestCode code,
         SetLocationHash (''#'' @ code2hash c code),
         SetDocumentTitle
           ((if truthy (getProp (getMetadata c code) ''title'')
             then toString (getProp (getMetadata c code) ''title'') @ '' - '' else [])
            @ ''Strudel REPL''),
         SetVersionDefaultsFrom code]
      @ (if getProp (getViewingPatternData c) ''collection'' \<noteq> userPattern_collection c
         then (if JStr code \<noteq> getProp (getViewingPatternData c) ''code''
               then [Duplicate ((getViewingPatternData c)(''code'' \<mapsto> JStr code)),
                     SetViewingPatternData
                       (pattern_data (userPattern_duplicate c
                          ((getViewingPatternData c)(''code'' \<mapsto> JStr code)))),
                     SetActivePattern
                       (pattern_id (userPattern_duplicate c
                          ((getViewingPatternData c)(''code'' \<mapsto> JStr code))))]
               else [SetActivePattern (getProp (getViewingPatternData c) ''id'')])
         else (if userPattern_isValidID c (getProp (getViewingPatternData c) ''id'')
               then [Update (getProp (getViewingPatternData c) ''id'')
                       ((getViewingPatternData c)(''code'' \<mapsto> JStr code)),
                     SetViewingPatternData
                       (pattern_data (userPattern_update c (getProp (getViewingPatternData c) ''id'')
                          ((getViewingPatternData c)(''code'' \<mapsto> JStr code)))),
                     SetActivePattern (getProp (getViewingPatternData c) ''id'')]
               else [CreatePatternID,
                     Update (createPatternID c) ((getViewingPatternData c)(''code'' \<mapsto> JStr code)),
                     SetViewingPatternData
                       (pattern_data (userPattern_update c (createPatternID c)
                          ((getViewingPatternData c)(''code'' \<mapsto> JStr code)))),
                     SetActivePattern (createPatternID c)]))"
    by (simp add: afterEval_def setDocumentTitle_def Let_def getProp_def)
  show "filter (\<lambda>e. isDocumentCall e \<and> \<not> isForkOrUpdate e) (afterEval c code)
       = [last (afterEval c code)]"
    by (simp add: afterEval_def setDocumentTitle_def Let_def)
qed

text \<open>
  The spec's scenario, with the title \<open>birds\<close> in the metadata of the evaluated code.
\<close>

theorem afterEval_order_of_effects_witness:
  "afterEval ((sampleStore (document (JStr ''ex1'') ''examples'' ''a''))
       \<lparr>getMetadata := (\<lambda>code. [''title'' \<mapsto> JStr ''birds''])\<rparr>) ''b'' =
     [PostMessage ''b'', SetLatestCode ''b'', SetLocationHash ''#b'',
      SetDocumentTitle ''birds - Strudel REPL'', SetVersionDefaultsFrom ''b'',
      Duplicate ((document (JStr ''ex1'') ''examples'' ''a'')(''code'' \<mapsto> JStr ''b'')),
      SetViewingPatternData ((document (JStr ''ex1'') ''examples'' ''a'')
         (''code'' \<mapsto> JStr ''b'', ''id'' \<mapsto> JStr ''n1'', ''collection'' \<mapsto> JStr ''user'')),
      SetActivePattern (JStr ''n1'')]"
  using afterEval_order_of_effects
     [of "(sampleStore (document (JStr ''ex1'') ''examples'' ''a''))
            \<lparr>getMetadata := (\<lambda>code. [''title'' \<mapsto> JStr ''birds''])\<rparr>" "''b''"]
  by (simp add: sampleStore_def document_def getProp_def)

subsection \<open>The other hooks and the actions\<close>

text \<open>
  C8. An on-toggle notification that reports the stopped state (\<open>playing = false\<close>)
  releases the secondary visual resource exactly once: the hook makes the single call
  \<open>clearHydra()\<close>. A notification that reports the started state (\<open>playing = true\<close>)
  makes no call at all, so the resource is not released.
\<close>

theorem onToggle_releases_once_when_stopped:
  "onToggle (JBool False) = [ClearHydra] \<and> onToggle (JBool True) = []
   \<and> count_list (onToggle playing) ClearHydra = (if truthy playing then 0 else 1)"
  by (simp add: onToggle_def js_not_def)

text \<open>
  C3 (amended). After an on-update notification carrying the state record \<open>S\<close>, the
  mirrored snapshot is \<open>S\<close>, whatever it was before: every field of \<open>S\<close> is there with
  the value \<open>S\<close> gives it, and a field that \<open>S\<close> does not have is not there, also when
  the previous snapshot had it. After two notifications the snapshot is the second
  record, and the context handed to the views is read from it.
\<close>

theorem onUpdateState_replaces_snapshot:
  "replState (onUpdateState S s) = S
   \<and> dom (replState (onUpdateState S s)) = dom S
   \<and> replState (onUpdateState S2 (onUpdateState S1 s)) = S2
   \<and> useReplContext (onUpdateState S s) =
       \<lparr>started = getProp S ''started'', pending = getProp S ''pending'',
        isDirty = getProp S ''isDirty'', activeCode = getProp S ''activeCode'',
        error = getProp S ''error''\<rparr>"
  by (simp add: onUpdateState_def useReplContext_def)

text \<open>
  Against C3 as stated: the snapshot holds an \<open>error\<close> field, and the next notification
  carries a record without one. The field is gone afterwards.
\<close>

theorem onUpdateState_drops_absent_field:
  "''error'' \<in> dom (replState (runningSession [''started'' \<mapsto> JBool True, ''error'' \<mapsto> JStr ''boom'']))
   \<and> ''error'' \<notin> dom (replState (onUpdateState [''started'' \<mapsto> JBool False]
         (runningSession [''started'' \<mapsto> JBool True, ''error'' \<mapsto> JStr ''boom''])))"
  by (simp add: onUpdateState_def runningSession_def)

text \<open>
  C4. When the observed settings change and there is an editor, the effect makes one
  call of \<open>updateSettings\<close>; the object it passes is the observed settings restricted to
  the keys of \<open>defaultSettings\<close>: its keys are the recognized keys that the observed
  settings have, each with its observed value, and no other key. Without an editor
  nothing is forwarded. The effect has no failing branch.
\<close>

theorem settingsEffect_forwards_recognized_keys:
  "settingsEffect ks observed s =
     (case editorRef_current s of
        None \<Rightarrow> []
      | Some ed \<Rightarrow> [UpdateSettings (observed |` set ks)])
   \<and> editorSettings ks observed = observed |` set ks
   \<and> dom (editorSettings ks observed) = dom observed \<inter> set ks"
  by (auto simp: settingsEffect_def editorSettings_def fold_editorSettings split: option.splits)

text \<open>
  A run: of the recognized keys \<open>fontSize\<close> and \<open>theme\<close> only \<open>theme\<close> is observed, and the
  observed \<open>isZen\<close> is not recognized.
\<close>

theorem settingsEffect_forwards_recognized_keys_witness:
  "settingsEffect [''fontSize'', ''theme''] [''theme'' \<mapsto> JStr ''dark'', ''isZen'' \<mapsto> JBool True]
      (runningSession Map.empty)
     = [UpdateSettings [''theme'' \<mapsto> JStr ''dark'']]"
  using settingsEffect_forwards_recognized_keys
     [of "[''fontSize'', ''theme'']" "[''theme'' \<mapsto> JStr ''dark'', ''isZen'' \<mapsto> JBool True]"
         "runningSession Map.empty"]
  by (auto simp: restrict_map_def fun_eq_iff runningSession_def)

text \<open>
  C5 (amended). The share action passes to \<open>shareCode\<close> the \<open>code\<close> field of the mirrored
  snapshot, which is \<open>undefined\<close> when the snapshot has no such field. After an on-update
  notification carrying \<open>S\<close> that is the \<open>code\<close> field of \<open>S\<close>; the \<open>activeCode\<close> field
  plays no part.
\<close>

theorem handleShare_passes_code_field:
  "handleShare s = [ShareCode (getProp (replState s) ''code'')]
   \<and> handleShare (onUpdateState S s) = [ShareCode (getProp S ''code'')]
   \<and> handleShare (onUpdateState (S(''activeCode'' := v)) s) = handleShare (onUpdateState S s)"
  by (simp add: handleShare_def onUpdateState_def getProp_def)

text \<open>
  Against C5 as stated: with \<open>activeCode = "a"\<close> and \<open>code = "b"\<close> in the snapshot, \<open>"b"\<close>
  is shared; with the session state of the spec's data model, which has \<open>activeCode\<close> and
  no \<open>code\<close> field, \<open>undefined\<close> is shared.
\<close>

theorem handleShare_does_not_pass_activeCode:
  "handleShare (onUpdateState [''activeCode'' \<mapsto> JStr ''a'', ''code'' \<mapsto> JStr ''b'']
       (initialSession None True)) = [ShareCode (JStr ''b'')]
   \<and> getProp (replState (onUpdateState [''activeCode'' \<mapsto> JStr ''a'', ''code'' \<mapsto> JStr ''b'']
       (initialSession None True))) ''activeCode'' = JStr ''a''
   \<and> handleShare (onUpdateState [''activeCode'' \<mapsto> JStr ''a''] (initialSession None True))
       = [ShareCode JUndefined]"
  by (simp add: handleShare_def onUpdateState_def getProp_def initialSession_def)

text \<open>
  C6 (amended). When the module preload has not failed, the canvas-clearing function is
  defined and the editor instance exists, an invocation of \<open>reset()\<close> ends without an
  error and performs, once each and with no further condition: the global effects
  reset, the canvas clear, the release of the secondary visual resource, the reset of
  the loaded-sample cache, the clock-rate reset to 0.5 and the preload re-priming
  (after the voicings reset of the tonal module, when that module is loaded).
\<close>

theorem resetEditor_performs_all_with_editor:
  assumes "modulesLoading s \<noteq> Some Rejects" and "clearCanvas s" and "editorRef_current s = Some ed"
  shows "snd (resetEditor s) = None
     \<and> filter (\<lambda>e. e \<noteq> ResetVoicings) (fst (resetEditor s)) =
         [ResetGlobalEffects, ClearCanvas, ClearHydra, ResetLoadedSounds, SetCps (1 / 2), Prebake]"
  using assms
  by (auto simp: resetEditor_def getModule_def Let_def split: option.splits loading.splits sum.splits)

theorem resetEditor_performs_all_with_editor_witness:
  "modulesLoading (runningSession Map.empty) \<noteq> Some Rejects
   \<and> clearCanvas (runningSession Map.empty)
   \<and> editorRef_current (runningSession Map.empty) = Some StrudelMirror
   \<and> snd (resetEditor (runningSession Map.empty)) = None
   \<and> filter (\<lambda>e. e \<noteq> ResetVoicings) (fst (resetEditor (runningSession Map.empty))) =
         [ResetGlobalEffects, ClearCanvas, ClearHydra, ResetLoadedSounds, SetCps (1 / 2), Prebake]"
  using resetEditor_performs_all_with_editor [of "runningSession Map.empty" StrudelMirror]
  by (simp add: runningSession_def)

text \<open>
  Against C6 as stated: \<open>reset()\<close> invoked in the state of the first render, where
  \<open>editorRef.current\<close> is still undefined. The first four effects happen, then
  \<open>editorRef.current.repl\<close> throws: the clock rate is not reset and the preload is not
  re-primed.
\<close>

theorem resetEditor_without_editor_stops_early:
  "resetEditor (initialSession (Some (Resolves [])) True)
     = ([ResetGlobalEffects, ClearCanvas, ClearHydra, ResetLoadedSounds], Some TypeError)"
  by (simp add: resetEditor_def getModule_def initialSession_def)

subsection \<open>The toolbar view\<close>

text \<open>
  C9 (amended). For every session state given to the toolbar view: when the button row
  is shown (neither zen mode nor a hidden button row) there is one update control, and
  it is dimmed exactly when \<open>isDirty\<close> is falsy or \<open>activeCode\<close> is falsy; when the row is
  not shown there is no update control. The spinning indicator is the logo, the element
  whose click switches the zen mode: it is always rendered, and it spins exactly when
  the session is started and CSS animation is not disabled; no other element spins.
  The play/stop control, when the row is shown, never spins; it pulses exactly when the
  session is not started and CSS animation is not disabled.
\<close>

theorem Header_dimmed_update_and_spinning_logo:
  "map dimmed (updateControls (Header ctx emb win st)) =
     (if truthy (isZen st) \<or> truthy (isButtonRowHidden st) then []
      else [\<not> (truthy (isDirty ctx) \<and> truthy (activeCode ctx))])
   \<and> map spinning (zenControls (Header ctx emb win st)) =
     [truthy (started ctx) \<and> \<not> truthy (isCSSAnimationDisabled st)]
   \<and> filter spinning (elems (Header ctx emb win st)) = filter spinning (zenControls (Header ctx emb win st))
   \<and> map spinning (playControls (Header ctx emb win st)) =
     (if truthy (isZen st) \<or> truthy (isButtonRowHidden st) then [] else [False])
   \<and> map (hasClass ''animate-pulse'') (playControls (Header ctx emb win st)) =
     (if truthy (isZen st) \<or> truthy (isButtonRowHidden st) then []
      else [\<not> truthy (started ctx) \<and> \<not> truthy (isCSSAnimationDisabled st)])"
proof (intro conjI)
  show "map dimmed (updateControls (Header ctx emb win st)) =
     (if truthy (isZen st) \<or> truthy (isButtonRowHidden st) then []
      else [\<not> (truthy (isDirty ctx) \<and> truthy (activeCode ctx))])"
    by (simp add: view_defs)
  show "map spinning (zenControls (Header ctx emb win st)) =
     [truthy (started ctx) \<and> \<not> truthy (isCSSAnimationDisabled st)]"
    by (simp add: view_defs)
  show "filter spinning (elems (Header ctx emb win st)) =
     filter spinning (zenControls (Header ctx emb win st))"
    by (simp add: view_defs)
  show "map spinning (playControls (Header ctx emb win st)) =
     (if truthy (isZen st) \<or> truthy (isButtonRowHidden st) then [] else [False])"
    by (simp add: view_defs)
  show "map (hasClass ''animate-pulse'') (playControls (Header ctx emb win st)) =
     (if truthy (isZen st) \<or> truthy (isButtonRowHidden st) then []
      else [\<not> truthy (started ctx) \<and> \<not> truthy (isCSSAnimationDisabled st)])"
    by (simp add: view_defs)
qed

text \<open>
  Against C9 as stated. A started session with pending edits, plain settings: the
  play/stop control is rendered and does not spin (the logo does). A session without
  pending edits in zen mode: no update control is rendered, dimmed or not.
\<close>

theorem Header_play_control_does_not_spin:
  "map spinning (playControls (Header
       (useReplContext (runningSession [''started'' \<mapsto> JBool True, ''isDirty'' \<mapsto> JBool True,
           ''activeCode'' \<mapsto> JStr ''s'']))
       JUndefined (Some False) plainView)) = [False]
   \<and> map spinning (zenControls (Header
       (useReplContext (runningSession [''started'' \<mapsto> JBool True, ''isDirty'' \<mapsto> JBool True,
           ''activeCode'' \<mapsto> JStr ''s'']))
       JUndefined (Some False) plainView)) = [True]
   \<and> updateControls (Header
       (useReplContext (runningSession [''started'' \<mapsto> JBool True, ''isDirty'' \<mapsto> JBool False,
           ''activeCode'' \<mapsto> JStr ''s'']))
       JUndefined (Some False) zenView) = []"
  by (simp add: view_defs useReplContext_def runningSession_def getProp_def plainView_def zenView_def)

text \<open>
  C10 (amended). Before the first on-update notification the mirrored session state is
  the empty record, so each of \<open>started\<close>, \<open>pending\<close>, \<open>isDirty\<close>, \<open>activeCode\<close> and \<open>error\<close>
  is undefined. The toolbar then shows no stop affordance and no loading indicator, and,
  when the button row is shown (neither zen mode nor a hidden button row), it shows the
  play affordance (the control titled \<open>play\<close> with the play icon) and a dimmed update
  control; when the row is not shown it shows neither control.
\<close>

theorem Header_initial_render:
  "replState (initialSession loaded canvas) = Map.empty
   \<and> useReplContext (initialSession loaded canvas) =
       \<lparr>started = JUndefined, pending = JUndefined, isDirty = JUndefined,
        activeCode = JUndefined, error = JUndefined\<rparr>
   \<and> map titles (playControls (Header (useReplContext (initialSession loaded canvas)) emb win st)) =
       (if truthy (isZen st) \<or> truthy (isButtonRowHidden st) then [] else [[''play'']])
   \<and> (''PlayCircleIcon'' \<in> set (map tag_of
          (elems (Header (useReplContext (initialSession loaded canvas)) emb win st))))
       = (\<not> (truthy (isZen st) \<or> truthy (isButtonRowHidden st)))
   \<and> ''StopCircleIcon'' \<notin> set (map tag_of
          (elems (Header (useReplContext (initialSession loaded canvas)) emb win st)))
   \<and> ''stop'' \<notin> set (texts (Header (useReplContext (initialSession loaded canvas)) emb win st))
   \<and> ''loading...'' \<notin> set (texts (Header (useReplContext (initialSession loaded canvas)) emb win st))
   \<and> map dimmed (updateControls (Header (useReplContext (initialSession loaded canvas)) emb win st)) =
       (if truthy (isZen st) \<or> truthy (isButtonRowHidden st) then [] else [True])"
  by (cases "truthy (isZen st)"; cases "truthy (isButtonRowHidden st)"; cases win;
      simp add: view_defs useReplContext_def initialSession_def getProp_def)

text \<open>
  Against C10 as stated: the first render in zen mode shows neither a play affordance
  nor an update control.
\<close>

theorem Header_initial_render_in_zen_mode:
  "playControls (Header (useReplContext (initialSession None True)) JUndefined (Some False) zenView) = []
   \<and> updateControls (Header (useReplContext (initialSession None True)) JUndefined (Some False) zenView) = []
   \<and> ''play'' \<notin> set (texts (Header (useReplContext (initialSession None True)) JUndefined (Some False) zenView))"
  by (simp add: view_defs useReplContext_def initialSession_def getProp_def zenView_def)

end
